theory Spec2Isabelle
  imports Main "HOL-Library.AList" "HOL-Library.Sublist"
begin

section \<open>Python exceptions\<close>

text \<open>
  The exceptions that occur in \<^verbatim>\<open>torchelastic/multiprocessing/spawn.py\<close>. The first four
  constructors are the classes that derive from \<^verbatim>\<open>BaseException\<close> but not from
  \<^verbatim>\<open>Exception\<close>; \<open>UserException\<close> stands for any ordinary exception raised by user code.
  The last three are the classes of the module itself, with the fields of
  \<^verbatim>\<open>SubprocessException\<close> (\<^verbatim>\<open>error_index\<close>, \<^verbatim>\<open>error_pid\<close>) first, then the field of the
  subclass, and the message handed to \<^verbatim>\<open>Exception.__init__\<close> last.
\<close>

datatype exn =
    KeyboardInterrupt
  | SystemExit int
  | GeneratorExit
  | OtherBaseException string
  | UserException string
  | KeyError
  | IndexError
  | ValueError
  | TypeError
  | RuntimeError
  | OSError
  | AssertionError string
  | WorkerRaisedException nat int string
  | WorkerSignaledException nat int string "string option"
  | WorkerExitedException nat int int "string option"

text \<open>What \<^verbatim>\<open>except Exception\<close> matches.\<close>

fun is_Exception :: "exn \<Rightarrow> bool" where
  "is_Exception KeyboardInterrupt = False"
| "is_Exception (SystemExit c) = False"
| "is_Exception GeneratorExit = False"
| "is_Exception (OtherBaseException s) = False"
| "is_Exception x = True"


fun error_pid :: "exn \<Rightarrow> int option" where
  "error_pid (WorkerRaisedException i p m) = Some p"
| "error_pid (WorkerSignaledException i p n m) = Some p"
| "error_pid (WorkerExitedException i p c m) = Some p"
| "error_pid x = None"



text \<open>Truth value of an \<^verbatim>\<open>Optional[str]\<close>: \<^verbatim>\<open>None\<close> and the empty string are false.\<close>

fun truthy :: "string option \<Rightarrow> bool" where
  "truthy None = False"
| "truthy (Some s) = (s \<noteq> [])"

definition captured_header :: string where
  "captured_header = [CHR 0x0A] @ ''**Captured errors**'' @ [CHR 0x0A]"

text \<open>\<^verbatim>\<open>WorkerRaisedException.__init__\<close>.\<close>

definition WorkerRaisedException_init :: "nat \<Rightarrow> int \<Rightarrow> string \<Rightarrow> string option \<Rightarrow> exn" where
  "WorkerRaisedException_init i p m error_report_msg =
     (if truthy error_report_msg
      then WorkerRaisedException i p (m @ captured_header @ the error_report_msg)
      else WorkerRaisedException i p m)"

section \<open>The environment\<close>

text \<open>
  A worker process as the parent sees it through \<^verbatim>\<open>multiprocessing.Process\<close>:
  \<open>exitcode\<close> is \<open>None\<close> while the process runs. The last two fields are what the
  operating system will do with it: \<open>fate\<close> is the status it exits with when left alone
  and \<open>on_terminate\<close> the status it exits with once a termination request was sent;
  \<open>None\<close> there means that it never exits.
\<close>

record process =
  pid :: int
  sentinel :: nat
  exitcode :: "int option"
  term_sent :: bool
  fate :: "int option"
  on_terminate :: "int option"

text \<open>
  What the module takes from outside: the interpreter's version test, the error reporter,
  the table of \<^verbatim>\<open>signal.Signals\<close> (\<open>None\<close> where the lookup raises \<^verbatim>\<open>ValueError\<close>), the
  result of \<^verbatim>\<open>ctypes.CDLL("libc.so.6")\<close> (\<open>None\<close> where loading raises \<^verbatim>\<open>OSError\<close>,
  otherwise its \<^verbatim>\<open>prctl\<close>), the start methods \<^verbatim>\<open>multiprocessing.get_context\<close> accepts, and
  the process the system creates for the worker of a given index.
\<close>

record env =
  supports_context :: bool
  get_error :: "int \<Rightarrow> string option"
  signal_name :: "int \<Rightarrow> string option"
  libc :: "(int \<Rightarrow> int \<Rightarrow> int) option"
  start_methods :: "string list"
  os_start :: "string \<Rightarrow> bool \<Rightarrow> nat \<Rightarrow> process"

definition SIGINT :: int where "SIGINT = 2"
definition SIGTERM :: int where "SIGTERM = 15"

definition is_alive :: "process \<Rightarrow> bool" where
  "is_alive p = (exitcode p = None)"

text \<open>\<^verbatim>\<open>Process.terminate\<close>: the request is sent; the process is not waited for.\<close>

definition terminate :: "process \<Rightarrow> process" where
  "terminate p = (if exitcode p = None then p\<lparr>term_sent := True\<rparr> else p)"

text \<open>\<^verbatim>\<open>Process.join()\<close> without timeout: returns once the process has exited; \<open>None\<close> when
  it never does.\<close>

definition proc_join :: "process \<Rightarrow> process option" where
  "proc_join p =
     (case exitcode p of
        Some c \<Rightarrow> Some p
      | None \<Rightarrow>
          (case (if term_sent p then on_terminate p else fate p) of
             None \<Rightarrow> None
           | Some c \<Rightarrow> Some (p\<lparr>exitcode := Some c\<rparr>)))"

section \<open>The worker wrapper\<close>

definition PR_SET_PDEATHSIG :: int where "PR_SET_PDEATHSIG = 1"

definition pr_set_pdeathsig :: "env \<Rightarrow> int \<Rightarrow> exn + unit" where
  "pr_set_pdeathsig e sig =
     (case libc e of
        None \<Rightarrow> Inl OSError
      | Some prctl \<Rightarrow>
          (let rv = prctl PR_SET_PDEATHSIG sig
           in if rv \<noteq> 0 then Inl (AssertionError ''prctl'') else Inr ()))"

text \<open>
  The user function is given by what a call \<^verbatim>\<open>fn(i, *args)\<close> does: it returns, or it raises
  an exception, which comes with the text \<^verbatim>\<open>traceback.format_exc()\<close> renders for it.
\<close>

datatype fn_outcome = Returns | Raises exn string

text \<open>
  What a run of \<^verbatim>\<open>_wrap\<close> leaves: whether the user function was called, the exception that
  leaves \<^verbatim>\<open>_wrap\<close> (\<^verbatim>\<open>sys.exit(1)\<close> raises \<^verbatim>\<open>SystemExit(1)\<close>), and the error queue.
\<close>

record wrap_out =
  fn_called :: bool
  raised :: "exn option"
  queue :: "string list"

definition wrap :: "env \<Rightarrow> (nat \<Rightarrow> 'a \<Rightarrow> fn_outcome) \<Rightarrow> nat \<Rightarrow> 'a \<Rightarrow> string list \<Rightarrow> wrap_out" where
  "wrap e fn i args error_queue =
     (case pr_set_pdeathsig e SIGINT of
        Inl x \<Rightarrow> \<lparr>fn_called = False, raised = Some x, queue = error_queue\<rparr>
      | Inr u \<Rightarrow>
          (case fn i args of
             Returns \<Rightarrow> \<lparr>fn_called = True, raised = None, queue = error_queue\<rparr>
           | Raises x tb \<Rightarrow>
               if x = KeyboardInterrupt
               then \<lparr>fn_called = True, raised = None, queue = error_queue\<rparr>
               else if is_Exception x
               then \<lparr>fn_called = True, raised = Some (SystemExit 1), queue = error_queue @ [tb]\<rparr>
               else \<lparr>fn_called = True, raised = Some x, queue = error_queue\<rparr>))"

text \<open>
  Modelled from the spec: the epilogue of the worker process behind
  \<^verbatim>\<open>error_reporter.exec_fn\<close>, the target of the process, which is not in the source. A worker
  whose wrapper returns exits with status 0 (section 4.1, step 3), and one whose wrapper
  leaves through \<^verbatim>\<open>sys.exit(1)\<close> exits with status 1 (step 5). The other cases are the
  interpreter's: \<^verbatim>\<open>sys.exit(c)\<close> gives the status \<open>c\<close>, of which the system keeps the low
  eight bits, and any other exception that leaves the wrapper gives the status 1.
\<close>

definition exit_status :: "wrap_out \<Rightarrow> int" where
  "exit_status out =
     (case raised out of
        None \<Rightarrow> 0
      | Some (SystemExit c) \<Rightarrow> c mod 256
      | Some x \<Rightarrow> 1)"

text \<open>The process exits with status \<open>c\<close> when it is waited for.\<close>

definition exits_with :: "process \<Rightarrow> int \<Rightarrow> bool" where
  "exits_with p c = (map_option exitcode (proc_join p) = Some (Some c))"

section \<open>ProcessContext\<close>

record ProcessContext =
  error_queues :: "string list list"
  processes :: "process list"
  sentinels :: "(nat \<times> nat) list"

definition python_version_check :: "env \<Rightarrow> exn + unit" where
  "python_version_check e = (if \<not> supports_context e then Inl RuntimeError else Inr ())"

text \<open>The dictionary comprehension of \<^verbatim>\<open>__init__\<close>: a later process with the same sentinel
  replaces the index, the key keeps its place.\<close>

fun sentinel_dict :: "nat \<Rightarrow> process list \<Rightarrow> (nat \<times> nat) list \<Rightarrow> (nat \<times> nat) list" where
  "sentinel_dict index [] d = d"
| "sentinel_dict index (p # ps) d = sentinel_dict (Suc index) ps (AList.update (sentinel p) index d)"

definition ProcessContext_init :: "env \<Rightarrow> process list \<Rightarrow> string list list \<Rightarrow> exn + ProcessContext" where
  "ProcessContext_init e procs queues =
     (case python_version_check e of
        Inl x \<Rightarrow> Inl x
      | Inr u \<Rightarrow> Inr \<lparr>error_queues = queues, processes = procs,
                      sentinels = sentinel_dict 0 procs []\<rparr>)"

definition pids :: "ProcessContext \<Rightarrow> int list" where
  "pids ctx = map pid (processes ctx)"

subsection \<open>join\<close>

text \<open>The loop over the ready sentinels (lines 146 to 153). The result is the exception
  raised inside the loop or the value of \<^verbatim>\<open>error_index\<close> after it, with the context as the
  loop leaves it.\<close>

fun join_scan :: "nat list \<Rightarrow> ProcessContext \<Rightarrow> ((exn + nat option) \<times> ProcessContext) option" where
  "join_scan [] ctx = Some (Inr None, ctx)"
| "join_scan (s # ready) ctx =
     (case map_of (sentinels ctx) s of
        None \<Rightarrow> Some (Inl KeyError, ctx)
      | Some index \<Rightarrow>
          (let ctx1 = ctx\<lparr>sentinels := AList.delete s (sentinels ctx)\<rparr>
           in if length (processes ctx1) \<le> index then Some (Inl IndexError, ctx1)
              else
                (case proc_join (processes ctx1 ! index) of
                   None \<Rightarrow> None
                 | Some p \<Rightarrow>
                     (let ctx2 = ctx1\<lparr>processes := (processes ctx1)[index := p]\<rparr>
                      in if exitcode p \<noteq> Some 0 then Some (Inr (Some index), ctx2)
                         else join_scan ready ctx2))))"

text \<open>The loop that terminates the processes still alive (lines 160 to 164).\<close>

fun cascade :: "process list \<Rightarrow> process list option" where
  "cascade [] = Some []"
| "cascade (p # ps) =
     (case proc_join (if is_alive p then terminate p else p) of
        None \<Rightarrow> None
      | Some p' \<Rightarrow> (case cascade ps of None \<Rightarrow> None | Some ps' \<Rightarrow> Some (p' # ps')))"

text \<open>\<^verbatim>\<open>"%d" % n\<close> for a natural number.\<close>

fun digits :: "nat \<Rightarrow> string" where
  "digits n = (if n < 10 then [char_of (48 + n)] else digits (n div 10) @ [char_of (48 + n mod 10)])"

declare digits.simps [simp del]

definition terminated_header :: "nat \<Rightarrow> string" where
  "terminated_header i =
     [CHR 0x0A, CHR 0x0A] @ ''-- Process '' @ digits i @ '' terminated with the following error:''
       @ [CHR 0x0A]"

text \<open>The end of \<^verbatim>\<open>join\<close> (lines 166 to 186): the exception raised for the failed process
  \<open>k\<close>, and the context with the queue read.\<close>

definition report :: "env \<Rightarrow> ProcessContext \<Rightarrow> nat \<Rightarrow> exn \<times> ProcessContext" where
  "report e ctx k =
     (if length (processes ctx) \<le> k then (IndexError, ctx)
      else
        (let error_pid = pid (processes ctx ! k);
             subprocess_error_msg = get_error e error_pid
         in if length (error_queues ctx) \<le> k then (IndexError, ctx)
            else if error_queues ctx ! k = [] then
              (case exitcode (processes ctx ! k) of
                 None \<Rightarrow> (TypeError, ctx)
               | Some c \<Rightarrow>
                   if c < 0 then
                     (case signal_name e (- c) of
                        None \<Rightarrow> (ValueError, ctx)
                      | Some name \<Rightarrow>
                          (WorkerSignaledException k error_pid name subprocess_error_msg, ctx))
                   else (WorkerExitedException k error_pid c subprocess_error_msg, ctx))
            else
              (let original_trace = hd (error_queues ctx ! k);
                   ctx' = ctx\<lparr>error_queues := (error_queues ctx)[k := tl (error_queues ctx ! k)]\<rparr>;
                   m = terminated_header k @ original_trace
               in (WorkerRaisedException_init k error_pid m subprocess_error_msg, ctx'))))"

text \<open>
  \<^verbatim>\<open>ProcessContext.join\<close>. The argument \<open>w\<close> is what
  \<^verbatim>\<open>multiprocessing.connection.wait\<close> does when it is called on the sentinels with the
  timeout given: it returns the list of ready sentinels (empty when the timeout elapsed), or
  it never returns (\<open>None\<close>). The result is \<open>None\<close> when \<^verbatim>\<open>join\<close> does not return, and
  otherwise the exception raised or the value returned, with the context as it is then.
\<close>

definition join :: "env \<Rightarrow> ProcessContext \<Rightarrow> nat list option \<Rightarrow> ((exn + bool) \<times> ProcessContext) option" where
  "join e ctx w =
     (if length (sentinels ctx) = 0 then Some (Inr True, ctx)
      else
        (case w of
           None \<Rightarrow> None
         | Some ready \<Rightarrow>
             (case join_scan ready ctx of
                None \<Rightarrow> None
              | Some (Inl x, ctx1) \<Rightarrow> Some (Inl x, ctx1)
              | Some (Inr None, ctx1) \<Rightarrow> Some (Inr (length (sentinels ctx1) = 0), ctx1)
              | Some (Inr (Some k), ctx1) \<Rightarrow>
                  (case cascade (processes ctx1) of
                     None \<Rightarrow> None
                   | Some ps \<Rightarrow>
                       (case report e (ctx1\<lparr>processes := ps\<rparr>) k of
                          (x, ctx2) \<Rightarrow> Some (Inl x, ctx2))))))"

subsection \<open>SpawnContext\<close>

text \<open>
  A call \<^verbatim>\<open>__init__(*extra, processes, error_queues)\<close> of the initializer of
  \<^verbatim>\<open>ProcessContext\<close> on an instance, \<open>extra\<close> being the positional arguments in front of
  the two lists: the method has two parameters besides \<^verbatim>\<open>self\<close> and no defaults, so with any
  argument in front the call is a \<^verbatim>\<open>TypeError\<close>, raised before the body runs.
\<close>

datatype arg = Self | Processes "process list" | Queues "string list list"

definition ProcessContext_call ::
  "env \<Rightarrow> arg list \<Rightarrow> process list \<Rightarrow> string list list \<Rightarrow> exn + ProcessContext" where
  "ProcessContext_call e extra procs queues =
     (if extra \<noteq> [] then Inl TypeError else ProcessContext_init e procs queues)"

definition renamed_warning :: string where
  "renamed_warning = ''SpawnContext is renamed to ProcessContext since 1.4 release.''"

text \<open>\<^verbatim>\<open>SpawnContext.__init__\<close>, which calls
  \<^verbatim>\<open>super(SpawnContext, self).__init__(self, processes, error_queues)\<close>: the warnings issued
  and the outcome.\<close>

definition SpawnContext_init :: "env \<Rightarrow> process list \<Rightarrow> string list list \<Rightarrow> string list \<times> (exn + ProcessContext)" where
  "SpawnContext_init e procs queues =
     ([renamed_warning], ProcessContext_call e [Self] procs queues)"

section \<open>Launching\<close>

text \<open>The loop \<^verbatim>\<open>while not context.join(): pass\<close>; the list holds what the successive calls
  of \<^verbatim>\<open>wait\<close> return, and after its end \<^verbatim>\<open>wait\<close> does not return any more.\<close>

fun join_loop :: "env \<Rightarrow> ProcessContext \<Rightarrow> nat list list \<Rightarrow> ((exn + unit) \<times> ProcessContext) option" where
  "join_loop e ctx [] =
     (case join e ctx None of
        None \<Rightarrow> None
      | Some (Inl x, ctx') \<Rightarrow> Some (Inl x, ctx')
      | Some (Inr b, ctx') \<Rightarrow> if b then Some (Inr (), ctx') else None)"
| "join_loop e ctx (ready # rest) =
     (case join e ctx (Some ready) of
        None \<Rightarrow> None
      | Some (Inl x, ctx') \<Rightarrow> Some (Inl x, ctx')
      | Some (Inr b, ctx') \<Rightarrow> if b then Some (Inr (), ctx') else join_loop e ctx' rest)"

text \<open>
  What \<^verbatim>\<open>start_processes\<close> yields: the number of processes started, and the exception
  raised or the value returned (\<open>None\<close> is Python's \<^verbatim>\<open>None\<close>).
\<close>

record 'c launch =
  started :: nat
  outcome :: "exn + 'c option"

text \<open>
  \<^verbatim>\<open>start_processes\<close>. The call of \<^verbatim>\<open>error_reporter.configure\<close> has no effect on what is
  modelled here. The error queue of worker \<open>i\<close> is the one its child process runs
  \<^verbatim>\<open>_wrap\<close> on; the parent reads a queue only after that child has exited, so the queue is
  taken as the child leaves it. The process started for worker \<open>i\<close> is running, has not been
  asked to terminate, and left alone it exits with the status its run of \<^verbatim>\<open>_wrap\<close> ends with.
  The outer \<open>None\<close> is a launch that does not return.
\<close>

definition start_processes ::
  "env \<Rightarrow> (nat \<Rightarrow> 'a \<Rightarrow> fn_outcome) \<Rightarrow> 'a \<Rightarrow> int \<Rightarrow> bool \<Rightarrow> bool \<Rightarrow> string \<Rightarrow> nat list list
     \<Rightarrow> ProcessContext launch option" where
  "start_processes e fn args nprocs join_flag daemon start_method readys =
     (case python_version_check e of
        Inl x \<Rightarrow> Some \<lparr>started = 0, outcome = Inl x\<rparr>
      | Inr u \<Rightarrow>
          if start_method \<notin> set (start_methods e)
          then Some \<lparr>started = 0, outcome = Inl ValueError\<rparr>
          else
            (let indices = [0 ..< nat nprocs];
                 error_queues = map (\<lambda>i. queue (wrap e fn i args [])) indices;
                 processes = map (\<lambda>i. (os_start e start_method daemon i)
                                      \<lparr>exitcode := None, term_sent := False,
                                       fate := Some (exit_status (wrap e fn i args []))\<rparr>) indices
             in case ProcessContext_init e processes error_queues of
                  Inl x \<Rightarrow> Some \<lparr>started = length processes, outcome = Inl x\<rparr>
                | Inr ctx \<Rightarrow>
                    if \<not> join_flag
                    then Some \<lparr>started = length processes, outcome = Inr (Some ctx)\<rparr>
                    else
                      (case join_loop e ctx readys of
                         None \<Rightarrow> None
                       | Some (Inl x, ctx') \<Rightarrow> Some \<lparr>started = length processes, outcome = Inl x\<rparr>
                       | Some (Inr u, ctx') \<Rightarrow> Some \<lparr>started = length processes, outcome = Inr None\<rparr>)))"

definition start_method_warning :: "string \<Rightarrow> string" where
  "start_method_warning start_method =
     ''This method only supports start_method=spawn (got: '' @ start_method @ '').'' @ [CHR 0x0A]
       @ ''To use a different start_method use:'' @ [CHR 0x0A, CHR 0x09, CHR 0x09]
       @ '' torch.multiprocessing.start_process(...)''"

text \<open>\<^verbatim>\<open>spawn\<close>: the warnings issued and what \<^verbatim>\<open>start_processes\<close> yields.\<close>

definition spawn ::
  "env \<Rightarrow> (nat \<Rightarrow> 'a \<Rightarrow> fn_outcome) \<Rightarrow> 'a \<Rightarrow> int \<Rightarrow> bool \<Rightarrow> bool \<Rightarrow> string \<Rightarrow> nat list list
     \<Rightarrow> string list \<times> ProcessContext launch option" where
  "spawn e fn args nprocs join_flag daemon start_method readys =
     (if start_method \<noteq> ''spawn'' then [start_method_warning start_method] else [],
      start_processes e fn args nprocs join_flag daemon ''spawn'' readys)"

section \<open>Example values\<close>

text \<open>An environment in which the version test passes, \<^verbatim>\<open>libc.so.6\<close> loads and \<^verbatim>\<open>prctl\<close>
  returns 0, the error reporter holds a report for process 101 only, and the worker of
  index \<open>i\<close> gets the process id \<open>100 + i\<close> and the sentinel \<open>10 + i\<close> and exits with
  status \<open>- 15\<close> when it is terminated.\<close>

definition env0 :: env where
  "env0 = \<lparr>supports_context = True,
            get_error = (\<lambda>p. if p = 101 then Some ''disk full'' else None),
            signal_name = (\<lambda>n. if n = 2 then Some ''SIGINT'' else if n = 9 then Some ''SIGKILL''
                               else if n = 15 then Some ''SIGTERM'' else None),
            libc = Some (\<lambda>opt sig. 0),
            start_methods = [''fork'', ''spawn'', ''forkserver''],
            os_start = (\<lambda>m d i. \<lparr>pid = 100 + int i, sentinel = 10 + i, exitcode = None,
                                   term_sent = False, fate = None,
                                   on_terminate = Some (- 15)\<rparr>)\<rparr>"

text \<open>The same environment with a \<^verbatim>\<open>prctl\<close> that fails.\<close>

definition env_prctl_fails :: env where
  "env_prctl_fails = env0\<lparr>libc := Some (\<lambda>opt sig. - 1)\<rparr>"

definition worker :: "int \<Rightarrow> nat \<Rightarrow> int option \<Rightarrow> int option \<Rightarrow> process" where
  "worker p s c f = \<lparr>pid = p, sentinel = s, exitcode = c, term_sent = False, fate = f,
                     on_terminate = Some (- 15)\<rparr>"

text \<open>Three workers with the sentinels 10, 11 and 12: the first has exited with status 0,
  the second is about to exit with status \<open>c\<close> and its error queue holds \<open>q\<close>, the third
  is running. Then the same context after \<^verbatim>\<open>join\<close> has scanned the ready sentinels 10 and
  11, the processes after the remaining one was terminated, and the context after the queue
  of the second worker was read.\<close>

definition ctx_ex :: "string list \<Rightarrow> int \<Rightarrow> ProcessContext" where
  "ctx_ex q c = \<lparr>error_queues = [[], q, []],
            processes = [worker 100 10 (Some 0) (Some 0), worker 101 11 None (Some c),
                         worker 102 12 None (Some 0)],
            sentinels = [(10, 0), (11, 1), (12, 2)]\<rparr>"

definition ctx_ex_scanned :: "string list \<Rightarrow> int \<Rightarrow> ProcessContext" where
  "ctx_ex_scanned q c = \<lparr>error_queues = [[], q, []],
            processes = [worker 100 10 (Some 0) (Some 0), worker 101 11 (Some c) (Some c),
                         worker 102 12 None (Some 0)],
            sentinels = [(12, 2)]\<rparr>"

definition procs_ex_final :: "int \<Rightarrow> process list" where
  "procs_ex_final c = [worker 100 10 (Some 0) (Some 0), worker 101 11 (Some c) (Some c),
                       (worker 102 12 (Some (- 15)) (Some 0))\<lparr>term_sent := True\<rparr>]"

definition ctx_ex_final :: "string list \<Rightarrow> int \<Rightarrow> ProcessContext" where
  "ctx_ex_final q c = \<lparr>error_queues = [[], tl q, []], processes = procs_ex_final c,
                        sentinels = [(12, 2)]\<rparr>"

text \<open>A user function that raises \<^verbatim>\<open>ValueError("boom")\<close> in worker 1, and one that calls
  \<^verbatim>\<open>sys.exit(7)\<close> in worker 1 and is interrupted in worker 2.\<close>

definition fn_boom :: "nat \<Rightarrow> unit \<Rightarrow> fn_outcome" where
  "fn_boom i args = (if i = 1 then Raises (UserException ''ValueError'') ''ValueError: boom'' else Returns)"

definition fn_exit :: "nat \<Rightarrow> unit \<Rightarrow> fn_outcome" where
  "fn_exit i args = (if i = 1 then Raises (SystemExit 7) ''SystemExit: 7''
                     else if i = 2 then Raises KeyboardInterrupt ''KeyboardInterrupt'' else Returns)"

section \<open>Properties of the parts of join\<close>

lemma join_scan_Cons_cases:
  assumes "join_scan (s # ready) ctx = Some (r, ctx')"
  obtains
    (KeyErr) "map_of (sentinels ctx) s = None" "r = Inl KeyError" "ctx' = ctx"
  | (IndexErr) index where "map_of (sentinels ctx) s = Some index"
      "length (processes ctx) \<le> index" "r = Inl IndexError"
      "ctx' = ctx\<lparr>sentinels := AList.delete s (sentinels ctx)\<rparr>"
  | (Failed) index p where "map_of (sentinels ctx) s = Some index"
      "index < length (processes ctx)" "proc_join (processes ctx ! index) = Some p"
      "exitcode p \<noteq> Some 0" "r = Inr (Some index)"
      "ctx' = ctx\<lparr>sentinels := AList.delete s (sentinels ctx),
                   processes := (processes ctx)[index := p]\<rparr>"
  | (Next) index p where "map_of (sentinels ctx) s = Some index"
      "index < length (processes ctx)" "proc_join (processes ctx ! index) = Some p"
      "exitcode p = Some 0"
      "join_scan ready (ctx\<lparr>sentinels := AList.delete s (sentinels ctx),
                   processes := (processes ctx)[index := p]\<rparr>) = Some (r, ctx')"
proof (cases "map_of (sentinels ctx) s")
  case None
  with assms have "r = Inl KeyError" "ctx' = ctx" by simp_all
  with None show ?thesis by (rule KeyErr)
next
  case (Some index)
  show ?thesis
  proof (cases "length (processes ctx) \<le> index")
    case True
    with Some assms have "r = Inl IndexError"
      "ctx' = ctx\<lparr>sentinels := AList.delete s (sentinels ctx)\<rparr>" by (simp_all add: Let_def)
    with Some True show ?thesis by (rule IndexErr)
  next
    case False
    then have lt: "index < length (processes ctx)" by simp
    show ?thesis
    proof (cases "proc_join (processes ctx ! index)")
      case None
      with Some False assms show ?thesis by (simp add: Let_def)
    next
      case pj: (Some p)
      show ?thesis
      proof (cases "exitcode p = Some 0")
        case True
        with Some False pj assms have
          "join_scan ready (ctx\<lparr>sentinels := AList.delete s (sentinels ctx),
                   processes := (processes ctx)[index := p]\<rparr>) = Some (r, ctx')"
          by (simp add: Let_def)
        with Some lt pj True show ?thesis by (rule Next)
      next
        case F: False
        with Some False pj assms have "r = Inr (Some index)"
          "ctx' = ctx\<lparr>sentinels := AList.delete s (sentinels ctx),
                   processes := (processes ctx)[index := p]\<rparr>"
          by (simp_all add: Let_def)
        with Some lt pj F show ?thesis by (rule Failed)
      qed
    qed
  qed
qed

lemma delete_shrinks:
  "set (AList.delete s al) \<subseteq> set al"
  "x \<in> set al \<Longrightarrow> x \<notin> set (AList.delete s al) \<Longrightarrow> fst x = s"
  by (auto simp: AList.delete_eq)

lemma join_scan_frame:
  "join_scan ready ctx = Some (r, ctx') \<Longrightarrow>
     error_queues ctx' = error_queues ctx \<and> length (processes ctx') = length (processes ctx)"
proof (induction ready arbitrary: ctx)
  case Nil
  then show ?case by simp
next
  case (Cons s ready)
  from Cons.prems show ?case
  proof (cases rule: join_scan_Cons_cases)
    case KeyErr
    then show ?thesis by simp
  next
    case (IndexErr index)
    then show ?thesis by simp
  next
    case (Failed index p)
    then show ?thesis by simp
  next
    case (Next index p)
    from Cons.IH[OF Next(5)] show ?thesis by simp
  qed
qed

lemma join_scan_sentinels:
  "join_scan ready ctx = Some (r, ctx') \<Longrightarrow>
     set (sentinels ctx') \<subseteq> set (sentinels ctx) \<and>
     (\<forall>x \<in> set (sentinels ctx). x \<notin> set (sentinels ctx') \<longrightarrow> fst x \<in> set ready)"
proof (induction ready arbitrary: ctx)
  case Nil
  then have "ctx' = ctx" by simp
  then show ?case by blast
next
  case (Cons s ready)
  let ?d = "AList.delete s (sentinels ctx)"
  have base: "set ?d \<subseteq> set (sentinels ctx) \<and>
    (\<forall>x \<in> set (sentinels ctx). x \<notin> set ?d \<longrightarrow> fst x \<in> set (s # ready))"
    by (auto simp: AList.delete_eq)
  from Cons.prems show ?case
  proof (cases rule: join_scan_Cons_cases)
    case KeyErr
    then show ?thesis by blast
  next
    case (IndexErr index)
    then have "sentinels ctx' = ?d" by simp
    with base show ?thesis by metis
  next
    case (Failed index p)
    then have "sentinels ctx' = ?d" by simp
    with base show ?thesis by metis
  next
    case (Next index p)
    from Cons.IH[OF Next(5)] have ih: "set (sentinels ctx') \<subseteq> set ?d"
      "\<forall>x \<in> set ?d. x \<notin> set (sentinels ctx') \<longrightarrow> fst x \<in> set ready" by simp_all
    show ?thesis
    proof (intro conjI ballI impI)
      show "set (sentinels ctx') \<subseteq> set (sentinels ctx)" using ih(1) base by blast
    next
      fix x assume x: "x \<in> set (sentinels ctx)" "x \<notin> set (sentinels ctx')"
      show "fst x \<in> set (s # ready)"
      proof (cases "x \<in> set ?d")
        case True
        with ih(2) x(2) show ?thesis by simp
      next
        case False
        with base x(1) show ?thesis by blast
      qed
    qed
  qed
qed

lemma proc_join_Some:
  assumes "proc_join p = Some p'"
  shows "exitcode p' \<noteq> None" "pid p' = pid p" "term_sent p' = term_sent p"
    "exitcode p \<noteq> None \<Longrightarrow> p' = p"
    "exitcode p = None \<Longrightarrow> exitcode p' = (if term_sent p then on_terminate p else fate p)"
  using assms by (auto simp: proc_join_def split: option.splits if_splits)

lemma join_scan_designated:
  "join_scan ready ctx = Some (Inr (Some k), ctx') \<Longrightarrow>
     k < length (processes ctx') \<and> exitcode (processes ctx' ! k) \<noteq> None \<and>
     exitcode (processes ctx' ! k) \<noteq> Some 0"
proof (induction ready arbitrary: ctx)
  case Nil
  then show ?case by simp
next
  case (Cons s ready)
  from Cons.prems show ?case
  proof (cases rule: join_scan_Cons_cases)
    case KeyErr
    then show ?thesis by simp
  next
    case (IndexErr index)
    then show ?thesis by simp
  next
    case (Failed index p)
    with proc_join_Some(1)[OF Failed(3)] show ?thesis by simp
  next
    case (Next index p)
    from Cons.IH[OF Next(5)] show ?thesis .
  qed
qed


lemma cascade_Some:
  "cascade ps = Some ps' \<Longrightarrow>
     list_all2 (\<lambda>p p'. proc_join (if is_alive p then terminate p else p) = Some p') ps ps'"
proof (induction ps arbitrary: ps')
  case Nil
  then show ?case by simp
next
  case (Cons p ps)
  from Cons.prems obtain q qs where
    q: "proc_join (if is_alive p then terminate p else p) = Some q"
    and qs: "cascade ps = Some qs" and eq: "ps' = q # qs"
    by (auto split: option.splits)
  from Cons.IH[OF qs] q eq show ?case by simp
qed

lemma cascade_nth:
  assumes "cascade ps = Some ps'" and "i < length ps"
  shows "length ps' = length ps"
    and "proc_join (if is_alive (ps ! i) then terminate (ps ! i) else ps ! i) = Some (ps' ! i)"
  using cascade_Some[OF assms(1)] assms(2)
  by (auto simp: list_all2_conv_all_nth)

lemma cascade_exited:
  assumes "cascade ps = Some ps'" and "i < length ps"
  shows "exitcode (ps' ! i) \<noteq> None"
    and "pid (ps' ! i) = pid (ps ! i)"
    and "exitcode (ps ! i) \<noteq> None \<Longrightarrow> ps' ! i = ps ! i"
    and "is_alive (ps ! i) \<Longrightarrow> term_sent (ps' ! i) \<and> exitcode (ps' ! i) = on_terminate (ps ! i)"
proof -
  let ?p = "ps ! i"
  have pj: "proc_join (if is_alive ?p then terminate ?p else ?p) = Some (ps' ! i)"
    using cascade_nth(2)[OF assms] .
  show "exitcode (ps' ! i) \<noteq> None" using proc_join_Some(1)[OF pj] .
  show "pid (ps' ! i) = pid ?p"
    using proc_join_Some(2)[OF pj] by (simp add: terminate_def split: if_splits)
  show "exitcode ?p \<noteq> None \<Longrightarrow> ps' ! i = ?p"
    using pj by (auto simp: is_alive_def proc_join_def split: option.splits)
  show "term_sent (ps' ! i) \<and> exitcode (ps' ! i) = on_terminate ?p" if a: "is_alive ?p"
  proof -
    from a have t: "terminate ?p = ?p\<lparr>term_sent := True\<rparr>"
      by (simp add: is_alive_def terminate_def)
    from pj a t have pj': "proc_join (?p\<lparr>term_sent := True\<rparr>) = Some (ps' ! i)" by simp
    from a have n: "exitcode (?p\<lparr>term_sent := True\<rparr>) = None" by (simp add: is_alive_def)
    from proc_join_Some(3)[OF pj'] proc_join_Some(5)[OF pj' n] show ?thesis by simp
  qed
qed

lemma cascade_length: "cascade ps = Some ps' \<Longrightarrow> length ps' = length ps"
  using cascade_Some[of ps ps'] by (simp add: list_all2_lengthD)

lemma cascade_total:
  "(\<forall>p \<in> set ps. is_alive p \<longrightarrow> on_terminate p \<noteq> None) \<Longrightarrow> cascade ps \<noteq> None"
proof (induction ps)
  case Nil
  then show ?case by simp
next
  case (Cons p ps)
  then have "cascade ps \<noteq> None" by simp
  moreover have "proc_join (if is_alive p then terminate p else p) \<noteq> None"
    using Cons.prems by (auto simp: is_alive_def terminate_def proc_join_def split: option.splits)
  ultimately obtain q qs where "proc_join (if is_alive p then terminate p else p) = Some q"
    "cascade ps = Some qs" by blast
  then show ?case by simp
qed

lemma join_empty: "sentinels ctx = [] \<Longrightarrow> join e ctx w = Some (Inr True, ctx)"
  by (simp add: join_def)

lemma join_failure:
  assumes "sentinels ctx \<noteq> []"
    and "join_scan ready ctx = Some (Inr (Some k), ctx1)"
    and "cascade (processes ctx1) = Some ps"
  shows "join e ctx (Some ready) =
    Some (Inl (fst (report e (ctx1\<lparr>processes := ps\<rparr>) k)), snd (report e (ctx1\<lparr>processes := ps\<rparr>) k))"
  using assms by (simp add: join_def split: prod.splits)

lemma join_cases:
  assumes "join e ctx w = Some (r, ctx')"
  obtains
    (Joined) "sentinels ctx = []" "r = Inr True" "ctx' = ctx"
  | (ScanError) ready x where "sentinels ctx \<noteq> []" "w = Some ready"
      "join_scan ready ctx = Some (Inl x, ctx')" "r = Inl x"
  | (NoFailure) ready where "sentinels ctx \<noteq> []" "w = Some ready"
      "join_scan ready ctx = Some (Inr None, ctx')" "r = Inr (sentinels ctx' = [])"
  | (Failure) ready k ctx1 ps x where "sentinels ctx \<noteq> []" "w = Some ready"
      "join_scan ready ctx = Some (Inr (Some k), ctx1)" "cascade (processes ctx1) = Some ps"
      "report e (ctx1\<lparr>processes := ps\<rparr>) k = (x, ctx')" "r = Inl x"
proof (cases "sentinels ctx = []")
  case True
  then have "join e ctx w = Some (Inr True, ctx)" by (simp add: join_def)
  with assms have "r = Inr True" "ctx' = ctx" by auto
  with True show ?thesis by (rule Joined)
next
  case ne: False
  with assms obtain ready where w: "w = Some ready"
    by (cases w) (simp_all add: join_def)
  from assms ne w obtain res ctx1 where sc: "join_scan ready ctx = Some (res, ctx1)"
    by (cases "join_scan ready ctx") (auto simp: join_def)
  show ?thesis
  proof (cases res)
    case (Inl x)
    with ne w sc have "join e ctx w = Some (Inl x, ctx1)" by (simp add: join_def)
    with assms have "r = Inl x" "ctx' = ctx1" by auto
    with ne w sc Inl show ?thesis using ScanError by blast
  next
    case (Inr oi)
    show ?thesis
    proof (cases oi)
      case None
      with ne w sc Inr have "join e ctx w = Some (Inr (sentinels ctx1 = []), ctx1)"
        by (simp add: join_def)
      with assms have "r = Inr (sentinels ctx1 = [])" "ctx' = ctx1" by auto
      with ne w sc Inr None show ?thesis using NoFailure by blast
    next
      case (Some k)
      with assms ne w sc Inr obtain ps where ca: "cascade (processes ctx1) = Some ps"
        by (cases "cascade (processes ctx1)") (simp_all add: join_def)
      obtain x c2 where rp: "report e (ctx1\<lparr>processes := ps\<rparr>) k = (x, c2)"
        by (cases "report e (ctx1\<lparr>processes := ps\<rparr>) k")
      with ne w sc Inr Some ca have "join e ctx w = Some (Inl x, c2)" by (simp add: join_def)
      with assms have "r = Inl x" "ctx' = c2" by auto
      with ne w sc Inr Some ca rp show ?thesis using Failure by blast
    qed
  qed
qed

lemma report_raised:
  assumes "k < length (processes ctx)" "k < length (error_queues ctx)" "error_queues ctx ! k \<noteq> []"
  shows "report e ctx k =
    (WorkerRaisedException_init k (pid (processes ctx ! k))
       (terminated_header k @ hd (error_queues ctx ! k)) (get_error e (pid (processes ctx ! k))),
     ctx\<lparr>error_queues := (error_queues ctx)[k := tl (error_queues ctx ! k)]\<rparr>)"
  using assms by (simp add: report_def Let_def)

lemma report_signaled:
  assumes "k < length (processes ctx)" "k < length (error_queues ctx)" "error_queues ctx ! k = []"
    "exitcode (processes ctx ! k) = Some c" "c < 0" "signal_name e (- c) = Some name"
  shows "report e ctx k =
    (WorkerSignaledException k (pid (processes ctx ! k)) name (get_error e (pid (processes ctx ! k))),
     ctx)"
  using assms by (simp add: report_def Let_def)

lemma report_exited:
  assumes "k < length (processes ctx)" "k < length (error_queues ctx)" "error_queues ctx ! k = []"
    "exitcode (processes ctx ! k) = Some c" "0 \<le> c"
  shows "report e ctx k =
    (WorkerExitedException k (pid (processes ctx ! k)) c (get_error e (pid (processes ctx ! k))),
     ctx)"
  using assms by (simp add: report_def Let_def)

lemma report_unknown_signal:
  assumes "k < length (processes ctx)" "k < length (error_queues ctx)" "error_queues ctx ! k = []"
    "exitcode (processes ctx ! k) = Some c" "c < 0" "signal_name e (- c) = None"
  shows "report e ctx k = (ValueError, ctx)"
  using assms by (simp add: report_def Let_def)

lemma report_frame:
  assumes "report e ctx k = (x, ctx')"
  shows "sentinels ctx' = sentinels ctx" "processes ctx' = processes ctx"
    "error_queues ctx' = error_queues ctx \<or>
     (k < length (error_queues ctx) \<and> error_queues ctx ! k \<noteq> [] \<and>
      error_queues ctx' = (error_queues ctx)[k := tl (error_queues ctx ! k)] \<and>
      (\<exists>p m. x = WorkerRaisedException k p m))"
proof -
  consider (a) "length (processes ctx) \<le> k \<or> length (error_queues ctx) \<le> k \<or> error_queues ctx ! k = []"
    | (b) "k < length (processes ctx)" "k < length (error_queues ctx)" "error_queues ctx ! k \<noteq> []"
    by fastforce
  then have "sentinels ctx' = sentinels ctx \<and> processes ctx' = processes ctx \<and>
    (error_queues ctx' = error_queues ctx \<or>
     (k < length (error_queues ctx) \<and> error_queues ctx ! k \<noteq> [] \<and>
      error_queues ctx' = (error_queues ctx)[k := tl (error_queues ctx ! k)] \<and>
      (\<exists>p m. x = WorkerRaisedException k p m)))"
  proof cases
    case a
    with assms have "ctx' = ctx"
      by (auto simp: report_def Let_def split: if_splits option.splits)
    then show ?thesis by simp
  next
    case b
    from report_raised[OF b, of e] assms
    have x: "x = WorkerRaisedException_init k (pid (processes ctx ! k))
       (terminated_header k @ hd (error_queues ctx ! k)) (get_error e (pid (processes ctx ! k)))"
      and c: "ctx' = ctx\<lparr>error_queues := (error_queues ctx)[k := tl (error_queues ctx ! k)]\<rparr>"
      by simp_all
    from x have "\<exists>p m. x = WorkerRaisedException k p m"
      by (simp add: WorkerRaisedException_init_def)
    with b c show ?thesis by simp
  qed
  then show "sentinels ctx' = sentinels ctx" "processes ctx' = processes ctx"
    "error_queues ctx' = error_queues ctx \<or>
     (k < length (error_queues ctx) \<and> error_queues ctx ! k \<noteq> [] \<and>
      error_queues ctx' = (error_queues ctx)[k := tl (error_queues ctx ! k)] \<and>
      (\<exists>p m. x = WorkerRaisedException k p m))" by blast+
qed


lemma designated_facts:
  assumes "join_scan ready ctx = Some (Inr (Some k), ctx1)"
    and "cascade (processes ctx1) = Some ps"
  shows "k < length ps" "error_queues ctx1 = error_queues ctx"
    "ps ! k = processes ctx1 ! k" "exitcode (ps ! k) \<noteq> None" "exitcode (ps ! k) \<noteq> Some 0"
proof -
  from join_scan_designated[OF assms(1)] have k: "k < length (processes ctx1)"
    and ex: "exitcode (processes ctx1 ! k) \<noteq> None" "exitcode (processes ctx1 ! k) \<noteq> Some 0"
    by simp_all
  from cascade_length[OF assms(2)] k show "k < length ps" by simp
  from join_scan_frame[OF assms(1)] show "error_queues ctx1 = error_queues ctx" by simp
  from cascade_exited(3)[OF assms(2) k ex(1)] show eq: "ps ! k = processes ctx1 ! k" .
  from eq ex show "exitcode (ps ! k) \<noteq> None" "exitcode (ps ! k) \<noteq> Some 0" by simp_all
qed

lemma join_failure_raised:
  assumes "sentinels ctx \<noteq> []"
    and "join_scan ready ctx = Some (Inr (Some k), ctx1)"
    and "cascade (processes ctx1) = Some ps"
    and "k < length (error_queues ctx)" and "error_queues ctx ! k \<noteq> []"
  shows "join e ctx (Some ready) =
    Some (Inl (WorkerRaisedException_init k (pid (ps ! k))
                 (terminated_header k @ hd (error_queues ctx ! k)) (get_error e (pid (ps ! k)))),
          ctx1\<lparr>processes := ps, error_queues := (error_queues ctx)[k := tl (error_queues ctx ! k)]\<rparr>)"
proof -
  note d = designated_facts[OF assms(2,3)]
  let ?c = "ctx1\<lparr>processes := ps\<rparr>"
  have "report e ?c k =
    (WorkerRaisedException_init k (pid (processes ?c ! k))
       (terminated_header k @ hd (error_queues ?c ! k)) (get_error e (pid (processes ?c ! k))),
     ?c\<lparr>error_queues := (error_queues ?c)[k := tl (error_queues ?c ! k)]\<rparr>)"
    by (rule report_raised) (use d assms in simp_all)
  with d(2) join_failure[OF assms(1,2,3), of e] show ?thesis by simp
qed

lemma join_failure_signaled:
  assumes "sentinels ctx \<noteq> []"
    and "join_scan ready ctx = Some (Inr (Some k), ctx1)"
    and "cascade (processes ctx1) = Some ps"
    and "k < length (error_queues ctx)" and "error_queues ctx ! k = []"
    and "exitcode (ps ! k) = Some c" and "c < 0" and "signal_name e (- c) = Some name"
  shows "join e ctx (Some ready) =
    Some (Inl (WorkerSignaledException k (pid (ps ! k)) name (get_error e (pid (ps ! k)))),
          ctx1\<lparr>processes := ps\<rparr>)"
proof -
  note d = designated_facts[OF assms(2,3)]
  let ?c = "ctx1\<lparr>processes := ps\<rparr>"
  have "report e ?c k =
    (WorkerSignaledException k (pid (processes ?c ! k)) name (get_error e (pid (processes ?c ! k))), ?c)"
    by (rule report_signaled[where c=c]) (use d assms in simp_all)
  with join_failure[OF assms(1,2,3), of e] show ?thesis by simp
qed

lemma join_failure_exited:
  assumes "sentinels ctx \<noteq> []"
    and "join_scan ready ctx = Some (Inr (Some k), ctx1)"
    and "cascade (processes ctx1) = Some ps"
    and "k < length (error_queues ctx)" and "error_queues ctx ! k = []"
    and "exitcode (ps ! k) = Some c" and "0 \<le> c"
  shows "join e ctx (Some ready) =
    Some (Inl (WorkerExitedException k (pid (ps ! k)) c (get_error e (pid (ps ! k)))),
          ctx1\<lparr>processes := ps\<rparr>)"
proof -
  note d = designated_facts[OF assms(2,3)]
  let ?c = "ctx1\<lparr>processes := ps\<rparr>"
  have "report e ?c k =
    (WorkerExitedException k (pid (processes ?c ! k)) c (get_error e (pid (processes ?c ! k))), ?c)"
    by (rule report_exited) (use d assms in simp_all)
  with join_failure[OF assms(1,2,3), of e] show ?thesis by simp
qed

lemma join_failure_unknown_signal:
  assumes "sentinels ctx \<noteq> []"
    and "join_scan ready ctx = Some (Inr (Some k), ctx1)"
    and "cascade (processes ctx1) = Some ps"
    and "k < length (error_queues ctx)" and "error_queues ctx ! k = []"
    and "exitcode (ps ! k) = Some c" and "c < 0" and "signal_name e (- c) = None"
  shows "join e ctx (Some ready) = Some (Inl ValueError, ctx1\<lparr>processes := ps\<rparr>)"
proof -
  note d = designated_facts[OF assms(2,3)]
  let ?c = "ctx1\<lparr>processes := ps\<rparr>"
  have "report e ?c k = (ValueError, ?c)"
    by (rule report_unknown_signal[where c=c]) (use d assms in simp_all)
  with join_failure[OF assms(1,2,3), of e] show ?thesis by simp
qed


lemma digits_example: "digits 12 = ''12''"
  by code_simp









lemma started_exits_with:
  "exits_with (p\<lparr>exitcode := None, term_sent := False, fate := Some c\<rparr>) c"
  by (simp add: exits_with_def proc_join_def)

section \<open>Properties of the wrapper\<close>

lemma wrap_reaches_fn:
  assumes "pr_set_pdeathsig e SIGINT = Inr ()"
  shows "wrap e fn i args q =
    (case fn i args of
       Returns \<Rightarrow> \<lparr>fn_called = True, raised = None, queue = q\<rparr>
     | Raises x tb \<Rightarrow>
         if x = KeyboardInterrupt then \<lparr>fn_called = True, raised = None, queue = q\<rparr>
         else if is_Exception x
         then \<lparr>fn_called = True, raised = Some (SystemExit 1), queue = q @ [tb]\<rparr>
         else \<lparr>fn_called = True, raised = Some x, queue = q\<rparr>)"
  using assms by (simp add: wrap_def)

lemma wrap_without_libc:
  assumes "libc e = None"
  shows "wrap e fn i args q = \<lparr>fn_called = False, raised = Some OSError, queue = q\<rparr>"
  using assms by (simp add: wrap_def pr_set_pdeathsig_def)

section \<open>The example run\<close>

lemma ex_scan: "c \<noteq> 0 \<Longrightarrow> join_scan [10, 11] (ctx_ex q c) = Some (Inr (Some 1), ctx_ex_scanned q c)"
  by (simp add: ctx_ex_def ctx_ex_scanned_def worker_def proc_join_def AList.delete_eq)

lemma ex_cascade: "cascade (processes (ctx_ex_scanned q c)) = Some (procs_ex_final c)"
  by (simp add: ctx_ex_scanned_def procs_ex_final_def worker_def proc_join_def is_alive_def
      terminate_def)

lemma ex_join_raised:
  "join env0 (ctx_ex [''ValueError: boom''] 1) (Some [10, 11]) =
     Some (Inl (WorkerRaisedException 1 101
             (terminated_header 1 @ ''ValueError: boom'' @ captured_header @ ''disk full'')),
           ctx_ex_final [''ValueError: boom''] 1)"
proof -
  have ne: "sentinels (ctx_ex [''ValueError: boom''] 1) \<noteq> []" by (simp add: ctx_ex_def)
  have s: "join_scan [10, 11] (ctx_ex [''ValueError: boom''] 1) =
      Some (Inr (Some 1), ctx_ex_scanned [''ValueError: boom''] 1)"
    by (rule ex_scan) simp
  have len: "1 < length (error_queues (ctx_ex [''ValueError: boom''] 1))"
    and q: "error_queues (ctx_ex [''ValueError: boom''] 1) ! 1 \<noteq> []"
    by (simp_all add: ctx_ex_def)
  from join_failure_raised[OF ne s ex_cascade len q, of env0] show ?thesis
    by (simp add: ctx_ex_def ctx_ex_scanned_def ctx_ex_final_def procs_ex_final_def worker_def
        env0_def WorkerRaisedException_init_def)
qed

text \<open>
  The classification of the failure of a designated worker \<open>k\<close>, once the cascade has
  returned. If the error queue of \<open>k\<close> holds a message, the exception is the
  \<^verbatim>\<open>WorkerRaisedException\<close> built from that message. If the queue is empty and the exit status
  is negative, it is the \<^verbatim>\<open>WorkerSignaledException\<close> with the name \<^verbatim>\<open>signal.Signals\<close> has for
  the signal, where it has one. If the queue is empty and the exit status is not negative,
  it is the \<^verbatim>\<open>WorkerExitedException\<close> with the exit code. The designated worker has an exit
  status, which is not 0.
\<close>

lemma join_classification:
  assumes "sentinels ctx \<noteq> []"
    and "join_scan ready ctx = Some (Inr (Some k), ctx1)"
    and "cascade (processes ctx1) = Some ps"
    and "k < length (error_queues ctx)"
  shows "(error_queues ctx ! k \<noteq> [] \<longrightarrow>
           map_option fst (join e ctx (Some ready)) =
             Some (Inl (WorkerRaisedException_init k (pid (ps ! k))
                     (terminated_header k @ hd (error_queues ctx ! k)) (get_error e (pid (ps ! k)))))) \<and>
         (error_queues ctx ! k = [] \<and> exitcode (ps ! k) = Some c \<and> c < 0 \<and>
            signal_name e (- c) = Some name \<longrightarrow>
           map_option fst (join e ctx (Some ready)) =
             Some (Inl (WorkerSignaledException k (pid (ps ! k)) name (get_error e (pid (ps ! k)))))) \<and>
         (error_queues ctx ! k = [] \<and> exitcode (ps ! k) = Some c \<and> 0 \<le> c \<longrightarrow>
           map_option fst (join e ctx (Some ready)) =
             Some (Inl (WorkerExitedException k (pid (ps ! k)) c (get_error e (pid (ps ! k)))))) \<and>
         (\<exists>c'. exitcode (ps ! k) = Some c' \<and> c' \<noteq> 0)"
proof (intro conjI impI)
  assume "error_queues ctx ! k \<noteq> []"
  from join_failure_raised[OF assms this, of e]
  show "map_option fst (join e ctx (Some ready)) =
             Some (Inl (WorkerRaisedException_init k (pid (ps ! k))
                     (terminated_header k @ hd (error_queues ctx ! k)) (get_error e (pid (ps ! k)))))"
    by simp
next
  assume a: "error_queues ctx ! k = [] \<and> exitcode (ps ! k) = Some c \<and> c < 0 \<and>
            signal_name e (- c) = Some name"
  then have q: "error_queues ctx ! k = []" and x: "exitcode (ps ! k) = Some c" and n: "c < 0"
    and sn: "signal_name e (- c) = Some name" by simp_all
  from join_failure_signaled[OF assms q x n sn]
  show "map_option fst (join e ctx (Some ready)) =
             Some (Inl (WorkerSignaledException k (pid (ps ! k)) name (get_error e (pid (ps ! k)))))"
    by simp
next
  assume a: "error_queues ctx ! k = [] \<and> exitcode (ps ! k) = Some c \<and> 0 \<le> c"
  then have q: "error_queues ctx ! k = []" and x: "exitcode (ps ! k) = Some c" and n: "0 \<le> c"
    by simp_all
  from join_failure_exited[OF assms q x n, of e]
  show "map_option fst (join e ctx (Some ready)) =
             Some (Inl (WorkerExitedException k (pid (ps ! k)) c (get_error e (pid (ps ! k)))))"
    by simp
next
  from designated_facts(4,5)[OF assms(2,3)]
  show "\<exists>c'. exitcode (ps ! k) = Some c' \<and> c' \<noteq> 0" by auto
qed


lemma join_classification_example:
  "map_option fst (join env0 (ctx_ex [''ValueError: boom''] 1) (Some [10, 11])) =
     Some (Inl (WorkerRaisedException 1 101
       (terminated_header 1 @ ''ValueError: boom'' @ captured_header @ ''disk full''))) \<and>
   map_option fst (join env0 (ctx_ex [] (- 9)) (Some [10, 11])) =
     Some (Inl (WorkerSignaledException 1 101 ''SIGKILL'' (Some ''disk full''))) \<and>
   map_option fst (join env0 (ctx_ex [] 7) (Some [10, 11])) =
     Some (Inl (WorkerExitedException 1 101 7 (Some ''disk full'')))"
proof -
  have ne: "sentinels (ctx_ex q c) \<noteq> []" and len: "1 < length (error_queues (ctx_ex q c))"
    for q c by (simp_all add: ctx_ex_def)
  have s1: "join_scan [10, 11] (ctx_ex [''ValueError: boom''] 1) =
      Some (Inr (Some 1), ctx_ex_scanned [''ValueError: boom''] 1)"
    and s2: "join_scan [10, 11] (ctx_ex [] (- 9)) = Some (Inr (Some 1), ctx_ex_scanned [] (- 9))"
    and s3: "join_scan [10, 11] (ctx_ex [] 7) = Some (Inr (Some 1), ctx_ex_scanned [] 7)"
    by (rule ex_scan, simp)+
  have "map_option fst (join env0 (ctx_ex [''ValueError: boom''] 1) (Some [10, 11])) =
     Some (Inl (WorkerRaisedException 1 101
       (terminated_header 1 @ ''ValueError: boom'' @ captured_header @ ''disk full'')))"
    using join_classification[OF ne s1 ex_cascade len, where e=env0]
    by (simp add: ctx_ex_def procs_ex_final_def worker_def env0_def WorkerRaisedException_init_def)
  moreover have "map_option fst (join env0 (ctx_ex [] (- 9)) (Some [10, 11])) =
     Some (Inl (WorkerSignaledException 1 101 ''SIGKILL'' (Some ''disk full'')))"
    using join_classification[OF ne s2 ex_cascade len, where e=env0 and c="- 9" and name="''SIGKILL''"]
    by (simp add: ctx_ex_def procs_ex_final_def worker_def env0_def)
  moreover have "map_option fst (join env0 (ctx_ex [] 7) (Some [10, 11])) =
     Some (Inl (WorkerExitedException 1 101 7 (Some ''disk full'')))"
    using join_classification[OF ne s3 ex_cascade len, where e=env0 and c=7]
    by (simp add: ctx_ex_def procs_ex_final_def worker_def env0_def)
  ultimately show ?thesis by blast
qed

text \<open>The launch of three workers of which the second raises \<^verbatim>\<open>ValueError("boom")\<close>,
  with \<^verbatim>\<open>wait\<close> reporting the first worker and then the second.\<close>

lemma ex_launch:
  "start_processes env0 fn_boom () 3 True False ''spawn'' [[10], [11]] =
     Some \<lparr>started = 3,
           outcome = Inl (WorkerRaisedException 1 101
             (terminated_header 1 @ ''ValueError: boom'' @ captured_header @ ''disk full''))\<rparr>"
proof -
  have u: "[0 ..< 3] = [0, 1, 2::nat]" by (simp add: upt_rec)
  have c: "ProcessContext_init env0
      (map (\<lambda>i. (os_start env0 ''spawn'' False i)
                  \<lparr>exitcode := None, term_sent := False,
                   fate := Some (exit_status (wrap env0 fn_boom i () []))\<rparr>) [0, 1, 2])
      (map (\<lambda>i. queue (wrap env0 fn_boom i () [])) [0, 1, 2]) =
      Inr (ctx_ex [''ValueError: boom''] 1\<lparr>processes :=
        [worker 100 10 None (Some 0), worker 101 11 None (Some 1), worker 102 12 None (Some 0)]\<rparr>)"
    by (simp add: ProcessContext_init_def python_version_check_def env0_def wrap_def
        pr_set_pdeathsig_def fn_boom_def ctx_ex_def worker_def exit_status_def)
  have j1: "join env0 (ctx_ex [''ValueError: boom''] 1\<lparr>processes :=
        [worker 100 10 None (Some 0), worker 101 11 None (Some 1), worker 102 12 None (Some 0)]\<rparr>)
        (Some [10]) = Some (Inr False, (ctx_ex [''ValueError: boom''] 1)\<lparr>sentinels := [(11, 1), (12, 2)]\<rparr>)"
    by (simp add: join_def ctx_ex_def worker_def proc_join_def AList.delete_eq)
  have s: "join_scan [11] ((ctx_ex [''ValueError: boom''] 1)\<lparr>sentinels := [(11, 1), (12, 2)]\<rparr>) =
      Some (Inr (Some 1), ctx_ex_scanned [''ValueError: boom''] 1)"
    by (simp add: ctx_ex_def ctx_ex_scanned_def worker_def proc_join_def AList.delete_eq)
  have ne: "sentinels ((ctx_ex [''ValueError: boom''] 1)\<lparr>sentinels := [(11, 1), (12, 2)]\<rparr>) \<noteq> []"
    and len: "1 < length (error_queues ((ctx_ex [''ValueError: boom''] 1)\<lparr>sentinels := [(11, 1), (12, 2)]\<rparr>))"
    and q: "error_queues ((ctx_ex [''ValueError: boom''] 1)\<lparr>sentinels := [(11, 1), (12, 2)]\<rparr>) ! 1 \<noteq> []"
    by (simp_all add: ctx_ex_def)
  from join_failure_raised[OF ne s ex_cascade len q, of env0]
  have j2: "join env0 ((ctx_ex [''ValueError: boom''] 1)\<lparr>sentinels := [(11, 1), (12, 2)]\<rparr>) (Some [11]) =
     Some (Inl (WorkerRaisedException 1 101
             (terminated_header 1 @ ''ValueError: boom'' @ captured_header @ ''disk full'')),
           ctx_ex_final [''ValueError: boom''] 1)"
    by (simp add: ctx_ex_def ctx_ex_scanned_def ctx_ex_final_def procs_ex_final_def worker_def
        env0_def WorkerRaisedException_init_def)
  have m: "supports_context env0" "''spawn'' \<in> set (start_methods env0)" by (simp_all add: env0_def)
  show ?thesis
    using m c j1 j2 by (simp add: start_processes_def python_version_check_def Let_def u)
qed

section \<open>The claims\<close>

text \<open>
  C1. The classification is the one claimed where the queue of the designated worker holds
  a message, where its exit status is not negative, and where the status is negative and
  \<^verbatim>\<open>signal.Signals\<close> has a name for the signal (lemma \<open>join_classification\<close>). It is not
  for a worker with an empty queue that was killed by a signal \<^verbatim>\<open>signal.Signals\<close> has no
  member for, such as signal 35: the lookup of the name raises \<^verbatim>\<open>ValueError\<close>, and \<open>join\<close>
  raises that in place of a \<^verbatim>\<open>WorkerSignaledException\<close>.
\<close>

theorem unnamed_signal_raises_ValueError:
  "join env0 (ctx_ex [] (- 35)) (Some [10, 11]) =
     Some (Inl ValueError, (ctx_ex_scanned [] (- 35))\<lparr>processes := procs_ex_final (- 35)\<rparr>)"
proof -
  have ne: "sentinels (ctx_ex [] (- 35)) \<noteq> []"
    and len: "1 < length (error_queues (ctx_ex [] (- 35)))"
    and q: "error_queues (ctx_ex [] (- 35)) ! 1 = []"
    by (simp_all add: ctx_ex_def)
  have s: "join_scan [10, 11] (ctx_ex [] (- 35)) = Some (Inr (Some 1), ctx_ex_scanned [] (- 35))"
    by (rule ex_scan) simp
  have x: "exitcode (procs_ex_final (- 35) ! 1) = Some (- 35)"
    by (simp add: procs_ex_final_def worker_def)
  have n: "signal_name env0 (- (- 35)) = None" by (simp add: env0_def)
  from join_failure_unknown_signal[OF ne s ex_cascade len q x _ n] show ?thesis by simp
qed



text \<open>
  C3. When \<open>join\<close> designates a failing worker: if every worker still alive exits once it is
  asked to terminate, \<open>join\<close> returns; and whenever \<open>join\<close> returns, it raises, and by then
  every worker has exited, every worker that was still alive after the scan has been sent
  the termination request and waited for (its exit status is the one it has after the
  request), and the workers that had exited already are untouched.
\<close>

theorem cascade_before_raise:
  assumes "sentinels ctx \<noteq> []"
    and "join_scan ready ctx = Some (Inr (Some k), ctx1)"
  shows "((\<forall>p \<in> set (processes ctx1). is_alive p \<longrightarrow> on_terminate p \<noteq> None) \<longrightarrow>
            join e ctx (Some ready) \<noteq> None) \<and>
         (join e ctx (Some ready) = Some (r, ctx') \<longrightarrow>
            (\<exists>x. r = Inl x) \<and> length (processes ctx') = length (processes ctx1) \<and>
            (\<forall>i < length (processes ctx1).
               exitcode (processes ctx' ! i) \<noteq> None \<and>
               (is_alive (processes ctx1 ! i) \<longrightarrow>
                  term_sent (processes ctx' ! i) \<and>
                  exitcode (processes ctx' ! i) = on_terminate (processes ctx1 ! i)) \<and>
               (\<not> is_alive (processes ctx1 ! i) \<longrightarrow> processes ctx' ! i = processes ctx1 ! i)))"
proof (intro conjI impI)
  assume "\<forall>p \<in> set (processes ctx1). is_alive p \<longrightarrow> on_terminate p \<noteq> None"
  from cascade_total[OF this] obtain ps where "cascade (processes ctx1) = Some ps" by blast
  from join_failure[OF assms this, of e] show "join e ctx (Some ready) \<noteq> None" by simp
next
  assume j: "join e ctx (Some ready) = Some (r, ctx')"
  from j have "\<exists>ps x. cascade (processes ctx1) = Some ps \<and> r = Inl x \<and> processes ctx' = ps"
  proof (cases rule: join_cases)
    case Joined
    with assms(1) show ?thesis by simp
  next
    case (ScanError ready' x)
    with assms(2) show ?thesis by simp
  next
    case (NoFailure ready')
    with assms(2) show ?thesis by simp
  next
    case (Failure ready' k' c1 ps x)
    with assms(2) have "c1 = ctx1" "k' = k" by simp_all
    with Failure(4) have c: "cascade (processes ctx1) = Some ps" by simp
    from report_frame(2)[OF Failure(5)] have "processes ctx' = ps" by simp
    with c Failure(6) show ?thesis by blast
  qed
  then obtain ps x where c: "cascade (processes ctx1) = Some ps" and r: "r = Inl x"
    and p: "processes ctx' = ps" by blast
  from r show "\<exists>x. r = Inl x" by blast
  from cascade_length[OF c] p show "length (processes ctx') = length (processes ctx1)" by simp
  show "\<forall>i < length (processes ctx1).
               exitcode (processes ctx' ! i) \<noteq> None \<and>
               (is_alive (processes ctx1 ! i) \<longrightarrow>
                  term_sent (processes ctx' ! i) \<and>
                  exitcode (processes ctx' ! i) = on_terminate (processes ctx1 ! i)) \<and>
               (\<not> is_alive (processes ctx1 ! i) \<longrightarrow> processes ctx' ! i = processes ctx1 ! i)"
  proof (intro allI impI conjI)
    fix i assume i: "i < length (processes ctx1)"
    from cascade_exited(1)[OF c i] p show "exitcode (processes ctx' ! i) \<noteq> None" by simp
    { assume "is_alive (processes ctx1 ! i)"
      from cascade_exited(4)[OF c i this] p
      show "term_sent (processes ctx' ! i)"
        and "exitcode (processes ctx' ! i) = on_terminate (processes ctx1 ! i)" by simp_all }
    { assume "\<not> is_alive (processes ctx1 ! i)"
      then have "exitcode (processes ctx1 ! i) \<noteq> None" by (simp add: is_alive_def)
      from cascade_exited(3)[OF c i this] p
      show "processes ctx' ! i = processes ctx1 ! i" by simp }
  qed
qed

theorem cascade_before_raise_witness:
  "join env0 (ctx_ex [''ValueError: boom''] 1) (Some [10, 11]) \<noteq> None \<and>
   length (processes (ctx_ex_final [''ValueError: boom''] 1)) = 3 \<and>
   exitcode (processes (ctx_ex_final [''ValueError: boom''] 1) ! 0) \<noteq> None \<and>
   exitcode (processes (ctx_ex_final [''ValueError: boom''] 1) ! 1) \<noteq> None \<and>
   term_sent (processes (ctx_ex_final [''ValueError: boom''] 1) ! 2) \<and>
   exitcode (processes (ctx_ex_final [''ValueError: boom''] 1) ! 2) = Some (- 15)"
proof -
  have ne: "sentinels (ctx_ex [''ValueError: boom''] 1) \<noteq> []" by (simp add: ctx_ex_def)
  have s: "join_scan [10, 11] (ctx_ex [''ValueError: boom''] 1) =
      Some (Inr (Some 1), ctx_ex_scanned [''ValueError: boom''] 1)"
    by (rule ex_scan) simp
  note t = cascade_before_raise[OF ne s, where e=env0 and ctx'="ctx_ex_final [''ValueError: boom''] 1"
      and r="Inl (WorkerRaisedException 1 101
             (terminated_header 1 @ ''ValueError: boom'' @ captured_header @ ''disk full''))"]
  have resp: "\<forall>p \<in> set (processes (ctx_ex_scanned [''ValueError: boom''] 1)).
      is_alive p \<longrightarrow> on_terminate p \<noteq> None"
    by (simp add: ctx_ex_scanned_def worker_def)
  from t resp have a: "join env0 (ctx_ex [''ValueError: boom''] 1) (Some [10, 11]) \<noteq> None"
    by blast
  from t ex_join_raised have b: "length (processes (ctx_ex_final [''ValueError: boom''] 1)) =
      length (processes (ctx_ex_scanned [''ValueError: boom''] 1))"
    and c: "\<forall>i < length (processes (ctx_ex_scanned [''ValueError: boom''] 1)).
       exitcode (processes (ctx_ex_final [''ValueError: boom''] 1) ! i) \<noteq> None \<and>
       (is_alive (processes (ctx_ex_scanned [''ValueError: boom''] 1) ! i) \<longrightarrow>
          term_sent (processes (ctx_ex_final [''ValueError: boom''] 1) ! i) \<and>
          exitcode (processes (ctx_ex_final [''ValueError: boom''] 1) ! i) =
            on_terminate (processes (ctx_ex_scanned [''ValueError: boom''] 1) ! i))"
    by blast+
  have l: "length (processes (ctx_ex_scanned [''ValueError: boom''] 1)) = 3"
    and al: "is_alive (processes (ctx_ex_scanned [''ValueError: boom''] 1) ! 2)"
    and ot: "on_terminate (processes (ctx_ex_scanned [''ValueError: boom''] 1) ! 2) = Some (- 15)"
    by (simp_all add: ctx_ex_scanned_def worker_def is_alive_def)
  from c l have c0: "exitcode (processes (ctx_ex_final [''ValueError: boom''] 1) ! 0) \<noteq> None"
    and c1: "exitcode (processes (ctx_ex_final [''ValueError: boom''] 1) ! 1) \<noteq> None"
    by simp_all
  from c l al ot have c2: "term_sent (processes (ctx_ex_final [''ValueError: boom''] 1) ! 2)"
    "exitcode (processes (ctx_ex_final [''ValueError: boom''] 1) ! 2) = Some (- 15)"
    by simp_all
  from a b l c0 c1 c2 show ?thesis by simp
qed

text \<open>
  C4. The sentinel-to-index mapping only shrinks across a call of \<open>join\<close>: whatever the call
  returns or raises, every entry left was there before, and an entry that is gone belongs to
  a sentinel that \<^verbatim>\<open>wait\<close> reported ready. Once the mapping is empty, \<open>join\<close> returns true
  without calling \<^verbatim>\<open>wait\<close> and leaves the context as it is.
\<close>

theorem sentinels_only_shrink:
  "(sentinels ctx = [] \<longrightarrow> join e ctx w = Some (Inr True, ctx)) \<and>
   (join e ctx w = Some (r, ctx') \<longrightarrow>
      set (sentinels ctx') \<subseteq> set (sentinels ctx) \<and>
      (\<forall>x \<in> set (sentinels ctx). x \<notin> set (sentinels ctx') \<longrightarrow>
         (\<exists>ready. w = Some ready \<and> fst x \<in> set ready)))"
proof (intro conjI impI)
  assume "sentinels ctx = []"
  then show "join e ctx w = Some (Inr True, ctx)" by (rule join_empty)
next
  assume j: "join e ctx w = Some (r, ctx')"
  then have "set (sentinels ctx') \<subseteq> set (sentinels ctx) \<and>
      (\<forall>x \<in> set (sentinels ctx). x \<notin> set (sentinels ctx') \<longrightarrow>
         (\<exists>ready. w = Some ready \<and> fst x \<in> set ready))"
  proof (cases rule: join_cases)
    case Joined
    then show ?thesis by blast
  next
    case (ScanError ready x)
    from join_scan_sentinels[OF ScanError(3)] ScanError(2) show ?thesis by blast
  next
    case (NoFailure ready)
    from join_scan_sentinels[OF NoFailure(3)] NoFailure(2) show ?thesis by blast
  next
    case (Failure ready k ctx1 ps x)
    from report_frame(1)[OF Failure(5)] have "sentinels ctx' = sentinels ctx1" by simp
    with join_scan_sentinels[OF Failure(3)] Failure(2) show ?thesis by metis
  qed
  then show "set (sentinels ctx') \<subseteq> set (sentinels ctx)"
    and "\<forall>x \<in> set (sentinels ctx). x \<notin> set (sentinels ctx') \<longrightarrow>
         (\<exists>ready. w = Some ready \<and> fst x \<in> set ready)" by blast+
qed

theorem sentinels_only_shrink_witness:
  "join env0 (ctx_ex [] 7) (Some [10]) =
     Some (Inr False, (ctx_ex [] 7)\<lparr>sentinels := [(11, 1), (12, 2)]\<rparr>) \<and>
   set [(11, 1), (12, 2)] \<subseteq> set (sentinels (ctx_ex [] 7)) \<and>
   fst ` (set (sentinels (ctx_ex [] 7)) - set [(11, 1), (12, 2)]) \<subseteq> set [10] \<and>
   join env0 ((ctx_ex [] 7)\<lparr>sentinels := []\<rparr>) None =
     Some (Inr True, (ctx_ex [] 7)\<lparr>sentinels := []\<rparr>)"
proof -
  let ?c' = "(ctx_ex [] 7)\<lparr>sentinels := [(11, 1), (12, 2)]\<rparr>"
  have j: "join env0 (ctx_ex [] 7) (Some [10]) = Some (Inr False, ?c')"
    by (simp add: join_def ctx_ex_def worker_def proc_join_def AList.delete_eq)
  from sentinels_only_shrink[of "ctx_ex [] 7" env0 "Some [10]" "Inr False" ?c'] j
  have "set [(11, 1), (12, 2)] \<subseteq> set (sentinels (ctx_ex [] 7))"
    and "\<forall>x \<in> set (sentinels (ctx_ex [] 7)).
           x \<notin> set [(11, 1), (12, 2)] \<longrightarrow> fst x \<in> set [10]"
    by simp_all
  moreover from sentinels_only_shrink[of "(ctx_ex [] 7)\<lparr>sentinels := []\<rparr>" env0 None]
  have "join env0 ((ctx_ex [] 7)\<lparr>sentinels := []\<rparr>) None =
      Some (Inr True, (ctx_ex [] 7)\<lparr>sentinels := []\<rparr>)"
    by simp
  ultimately show ?thesis using j by blast
qed

text \<open>
  C5, as amended. \<^verbatim>\<open>start_processes\<close> and \<^verbatim>\<open>spawn\<close> do not reject \<open>nprocs = 0\<close>: where the
  version test passes and the start method is known, no process is started and no error is
  raised; with \<^verbatim>\<open>join=True\<close> the call returns \<^verbatim>\<open>None\<close>, with \<^verbatim>\<open>join=False\<close> it returns a
  context without workers.
\<close>

theorem start_processes_accepts_zero:
  assumes "supports_context e" and "start_method \<in> set (start_methods e)"
  shows "start_processes e fn args 0 True daemon start_method readys =
           Some \<lparr>started = 0, outcome = Inr None\<rparr> \<and>
         start_processes e fn args 0 False daemon start_method readys =
           Some \<lparr>started = 0,
                 outcome = Inr (Some \<lparr>error_queues = [], processes = [], sentinels = []\<rparr>)\<rparr> \<and>
         (''spawn'' \<in> set (start_methods e) \<longrightarrow>
            snd (spawn e fn args 0 True daemon start_method readys) =
              Some \<lparr>started = 0, outcome = Inr None\<rparr>)"
proof -
  have i: "ProcessContext_init e [] [] = Inr \<lparr>error_queues = [], processes = [], sentinels = []\<rparr>"
    using assms(1) by (simp add: ProcessContext_init_def python_version_check_def)
  have l: "join_loop e \<lparr>error_queues = [], processes = [], sentinels = []\<rparr> rs =
     Some (Inr (), \<lparr>error_queues = [], processes = [], sentinels = []\<rparr>)" for rs
    by (cases rs) (simp_all add: join_def)
  have a: "start_processes e fn args 0 True daemon m readys =
           Some \<lparr>started = 0, outcome = Inr None\<rparr>" if "m \<in> set (start_methods e)" for m
    using assms(1) that i l by (simp add: start_processes_def python_version_check_def)
  have b: "start_processes e fn args 0 False daemon start_method readys =
           Some \<lparr>started = 0,
                 outcome = Inr (Some \<lparr>error_queues = [], processes = [], sentinels = []\<rparr>)\<rparr>"
    using assms i by (simp add: start_processes_def python_version_check_def)
  from a[OF assms(2)] b a[of "''spawn''"] show ?thesis by (simp add: spawn_def)
qed

theorem start_processes_accepts_zero_witness:
  "start_processes env0 fn_boom () 0 True False ''fork'' [] =
           Some \<lparr>started = 0, outcome = Inr None\<rparr> \<and>
   start_processes env0 fn_boom () 0 False False ''fork'' [] =
           Some \<lparr>started = 0,
                 outcome = Inr (Some \<lparr>error_queues = [], processes = [], sentinels = []\<rparr>)\<rparr> \<and>
   snd (spawn env0 fn_boom () 0 True False ''fork'' []) = Some \<lparr>started = 0, outcome = Inr None\<rparr>"
proof -
  have s: "supports_context env0" and m: "''fork'' \<in> set (start_methods env0)"
    and sp: "''spawn'' \<in> set (start_methods env0)"
    by (simp_all add: env0_def)
  from start_processes_accepts_zero[OF s m, of fn_boom "()" False "[]"] sp show ?thesis by simp
qed

text \<open>The claim as stated fails: the launch of no worker returns without an error.\<close>

theorem start_processes_zero_counterexample:
  "start_processes env0 fn_boom () 0 True False ''spawn'' [] =
     Some \<lparr>started = 0, outcome = Inr None\<rparr>"
  by (simp add: start_processes_def python_version_check_def env0_def ProcessContext_init_def
      join_def)



text \<open>
  C7, as amended. Where \<^verbatim>\<open>libc.so.6\<close> loads: if \<^verbatim>\<open>prctl\<close> returns 0, setting the parent-death
  signal succeeds and the wrapper calls the user function; if \<^verbatim>\<open>prctl\<close> returns another
  value, the assertion fails and the wrapper raises \<^verbatim>\<open>AssertionError\<close> without calling the
  user function and without writing to the queue.
\<close>

theorem pdeathsig_failure_is_fatal:
  assumes "libc e = Some prctl"
  shows "(prctl PR_SET_PDEATHSIG SIGINT = 0 \<longrightarrow>
            pr_set_pdeathsig e SIGINT = Inr () \<and> fn_called (wrap e fn i args q)) \<and>
         (prctl PR_SET_PDEATHSIG SIGINT \<noteq> 0 \<longrightarrow>
            wrap e fn i args q =
              \<lparr>fn_called = False, raised = Some (AssertionError ''prctl''), queue = q\<rparr>)"
proof (intro conjI impI)
  assume z: "prctl PR_SET_PDEATHSIG SIGINT = 0"
  with assms show p: "pr_set_pdeathsig e SIGINT = Inr ()" by (simp add: pr_set_pdeathsig_def)
  from wrap_reaches_fn[OF p, of fn i args q] show "fn_called (wrap e fn i args q)"
    by (simp split: fn_outcome.splits)
next
  assume "prctl PR_SET_PDEATHSIG SIGINT \<noteq> 0"
  with assms have "pr_set_pdeathsig e SIGINT = Inl (AssertionError ''prctl'')"
    by (simp add: pr_set_pdeathsig_def)
  then show "wrap e fn i args q =
     \<lparr>fn_called = False, raised = Some (AssertionError ''prctl''), queue = q\<rparr>"
    by (simp add: wrap_def)
qed

theorem pdeathsig_failure_is_fatal_witness:
  "fn_called (wrap env0 fn_boom 1 () []) \<and>
   wrap env_prctl_fails fn_boom 1 () [] =
     \<lparr>fn_called = False, raised = Some (AssertionError ''prctl''), queue = []\<rparr>"
proof -
  have l0: "libc env0 = Some (\<lambda>opt sig. 0)" by (simp add: env0_def)
  have l1: "libc env_prctl_fails = Some (\<lambda>opt sig. - 1)" by (simp add: env_prctl_fails_def)
  from pdeathsig_failure_is_fatal[OF l0, of fn_boom 1 "()" "[]"]
  have a: "fn_called (wrap env0 fn_boom 1 () [])" by simp
  from pdeathsig_failure_is_fatal[OF l1, of fn_boom 1 "()" "[]"]
  have b: "wrap env_prctl_fails fn_boom 1 () [] =
     \<lparr>fn_called = False, raised = Some (AssertionError ''prctl''), queue = []\<rparr>" by simp
  from a b show ?thesis by simp
qed

text \<open>The claim as stated fails: a failing \<^verbatim>\<open>prctl\<close> stops the worker before the user
  function is called.\<close>

theorem pdeathsig_failure_counterexample:
  "wrap env_prctl_fails fn_boom 0 () [] =
     \<lparr>fn_called = False, raised = Some (AssertionError ''prctl''), queue = []\<rparr>"
  by (simp add: wrap_def pr_set_pdeathsig_def env_prctl_fails_def env0_def)

text \<open>
  C8, as amended. \<^verbatim>\<open>SpawnContext(processes, error_queues)\<close> hands three positional arguments
  to the initializer of \<^verbatim>\<open>ProcessContext\<close>, which takes two: for all arguments the call raises
  \<^verbatim>\<open>TypeError\<close> and yields no object, and so it never does what
  \<^verbatim>\<open>ProcessContext(processes, error_queues)\<close> does.
\<close>

theorem SpawnContext_raises_TypeError:
  "snd (SpawnContext_init e procs queues) = Inl TypeError \<and>
   ProcessContext_call e [] procs queues \<noteq> snd (SpawnContext_init e procs queues)"
  by (simp add: SpawnContext_init_def ProcessContext_call_def ProcessContext_init_def
      python_version_check_def)

theorem SpawnContext_raises_TypeError_witness:
  "snd (SpawnContext_init env0 (processes (ctx_ex [] 7)) (error_queues (ctx_ex [] 7))) = Inl TypeError \<and>
   ProcessContext_call env0 [] (processes (ctx_ex [] 7)) (error_queues (ctx_ex [] 7)) =
     Inr (ctx_ex [] 7)"
  using SpawnContext_raises_TypeError[of env0 "processes (ctx_ex [] 7)" "error_queues (ctx_ex [] 7)"]
  by (simp add: ProcessContext_call_def ProcessContext_init_def python_version_check_def env0_def
      ctx_ex_def worker_def)

text \<open>The claim as stated fails: no object results whose fields could be bound to shifted
  arguments.\<close>

theorem SpawnContext_shifted_counterexample:
  "snd (SpawnContext_init env0 [] []) = Inl TypeError"
  by (simp add: SpawnContext_init_def ProcessContext_call_def)

text \<open>
  C9. Where the user function raises: an exception that is neither an ordinary exception nor
  \<^verbatim>\<open>KeyboardInterrupt\<close> leaves the wrapper as it is, with nothing written to the queue; only
  \<^verbatim>\<open>KeyboardInterrupt\<close> is swallowed; an ordinary exception is written to the queue and
  replaced by \<^verbatim>\<open>SystemExit(1)\<close>. A worker whose queue the wrapper left empty that way is
  classified by \<open>join\<close> from its exit status alone.
\<close>

theorem wrap_catches_only_exceptions:
  assumes "pr_set_pdeathsig e SIGINT = Inr ()" and "fn i args = Raises x tb"
  shows "(x \<noteq> KeyboardInterrupt \<and> \<not> is_Exception x \<longrightarrow>
            wrap e fn i args q = \<lparr>fn_called = True, raised = Some x, queue = q\<rparr>) \<and>
         (x = KeyboardInterrupt \<longrightarrow>
            wrap e fn i args q = \<lparr>fn_called = True, raised = None, queue = q\<rparr>) \<and>
         (is_Exception x \<longrightarrow>
            wrap e fn i args q =
              \<lparr>fn_called = True, raised = Some (SystemExit 1), queue = q @ [tb]\<rparr>) \<and>
         (raised (wrap e fn i args q) = None \<longleftrightarrow> x = KeyboardInterrupt) \<and>
         (x \<noteq> KeyboardInterrupt \<and> \<not> is_Exception x \<and> sentinels ctx \<noteq> [] \<and>
          join_scan ready ctx = Some (Inr (Some i), ctx1) \<and> cascade (processes ctx1) = Some ps \<and>
          i < length (error_queues ctx) \<and> error_queues ctx ! i = queue (wrap e fn i args []) \<and>
          exitcode (ps ! i) = Some c \<longrightarrow>
            map_option fst (join e ctx (Some ready)) =
              Some (Inl (if c < 0
                         then (case signal_name e (- c) of
                                 None \<Rightarrow> ValueError
                               | Some name \<Rightarrow>
                                   WorkerSignaledException i (pid (ps ! i)) name
                                     (get_error e (pid (ps ! i))))
                         else WorkerExitedException i (pid (ps ! i)) c (get_error e (pid (ps ! i))))))"
proof -
  note w = wrap_reaches_fn[OF assms(1), of fn i args]
  have a: "x \<noteq> KeyboardInterrupt \<and> \<not> is_Exception x \<longrightarrow>
            wrap e fn i args q = \<lparr>fn_called = True, raised = Some x, queue = q\<rparr>"
    using w[of q] assms(2) by simp
  have b: "x = KeyboardInterrupt \<longrightarrow>
            wrap e fn i args q = \<lparr>fn_called = True, raised = None, queue = q\<rparr>"
    using w[of q] assms(2) by simp
  have c: "is_Exception x \<longrightarrow>
            wrap e fn i args q =
              \<lparr>fn_called = True, raised = Some (SystemExit 1), queue = q @ [tb]\<rparr>"
    using w[of q] assms(2) by auto
  have d: "raised (wrap e fn i args q) = None \<longleftrightarrow> x = KeyboardInterrupt"
    using w[of q] assms(2) by simp
  have e: "map_option fst (join e ctx (Some ready)) =
              Some (Inl (if c < 0
                         then (case signal_name e (- c) of
                                 None \<Rightarrow> ValueError
                               | Some name \<Rightarrow>
                                   WorkerSignaledException i (pid (ps ! i)) name
                                     (get_error e (pid (ps ! i))))
                         else WorkerExitedException i (pid (ps ! i)) c (get_error e (pid (ps ! i)))))"
    if h: "x \<noteq> KeyboardInterrupt \<and> \<not> is_Exception x \<and> sentinels ctx \<noteq> [] \<and>
          join_scan ready ctx = Some (Inr (Some i), ctx1) \<and> cascade (processes ctx1) = Some ps \<and>
          i < length (error_queues ctx) \<and> error_queues ctx ! i = queue (wrap e fn i args []) \<and>
          exitcode (ps ! i) = Some c"
  proof -
    from h have ne: "sentinels ctx \<noteq> []" and sc: "join_scan ready ctx = Some (Inr (Some i), ctx1)"
      and ca: "cascade (processes ctx1) = Some ps" and len: "i < length (error_queues ctx)"
      and ex: "exitcode (ps ! i) = Some c" by simp_all
    from h w[of "[]"] assms(2) have q: "error_queues ctx ! i = []" by simp
    show ?thesis
    proof (cases "c < 0")
      case neg: True
      show ?thesis
      proof (cases "signal_name e (- c)")
        case None
        from join_failure_unknown_signal[OF ne sc ca len q ex neg None] neg None
        show ?thesis by simp
      next
        case (Some name)
        from join_failure_signaled[OF ne sc ca len q ex neg Some] neg Some
        show ?thesis by simp
      qed
    next
      case False
      then have "0 \<le> c" by simp
      from join_failure_exited[OF ne sc ca len q ex this, of e] False
      show ?thesis by simp
    qed
  qed
  from a b c d e show ?thesis by blast
qed

theorem wrap_catches_only_exceptions_witness:
  "wrap env0 fn_exit 1 () [] = \<lparr>fn_called = True, raised = Some (SystemExit 7), queue = []\<rparr> \<and>
   wrap env0 fn_exit 2 () [] = \<lparr>fn_called = True, raised = None, queue = []\<rparr> \<and>
   map_option fst (join env0 (ctx_ex [] 7) (Some [10, 11])) =
     Some (Inl (WorkerExitedException 1 101 7 (Some ''disk full'')))"
proof -
  have p: "pr_set_pdeathsig env0 SIGINT = Inr ()" by (simp add: pr_set_pdeathsig_def env0_def)
  have f1: "fn_exit 1 () = Raises (SystemExit 7) ''SystemExit: 7''"
    and f2: "fn_exit 2 () = Raises KeyboardInterrupt ''KeyboardInterrupt''"
    by (simp_all add: fn_exit_def)
  note t1 = wrap_catches_only_exceptions[where e=env0 and fn=fn_exit and i=1 and args="()"
      and q="[]" and ctx="ctx_ex [] 7" and ready="[10, 11]" and ?ctx1.0="ctx_ex_scanned [] 7"
      and ps="procs_ex_final 7" and c=7, OF p f1]
  note t2 = wrap_catches_only_exceptions[where e=env0 and fn=fn_exit and i=2 and args="()"
      and q="[]", OF p f2]
  from t1 have a: "wrap env0 fn_exit 1 () [] =
      \<lparr>fn_called = True, raised = Some (SystemExit 7), queue = []\<rparr>" by simp
  from t2 have b: "wrap env0 fn_exit 2 () [] = \<lparr>fn_called = True, raised = None, queue = []\<rparr>"
    by simp
  have s: "join_scan [10, 11] (ctx_ex [] 7) = Some (Inr (Some 1), ctx_ex_scanned [] 7)"
    by (rule ex_scan) simp
  have h: "sentinels (ctx_ex [] 7) \<noteq> []" "1 < length (error_queues (ctx_ex [] 7))"
    "error_queues (ctx_ex [] 7) ! 1 = queue (wrap env0 fn_exit 1 () [])"
    "exitcode (procs_ex_final 7 ! 1) = Some 7"
    using a by (simp_all add: ctx_ex_def procs_ex_final_def worker_def)
  from t1 s ex_cascade h have "map_option fst (join env0 (ctx_ex [] 7) (Some [10, 11])) =
     Some (Inl (WorkerExitedException 1 (pid (procs_ex_final 7 ! 1)) 7
                  (get_error env0 (pid (procs_ex_final 7 ! 1)))))"
    by simp
  then have c: "map_option fst (join env0 (ctx_ex [] 7) (Some [10, 11])) =
     Some (Inl (WorkerExitedException 1 101 7 (Some ''disk full'')))"
    by (simp add: procs_ex_final_def worker_def env0_def)
  from a b c show ?thesis by simp
qed

text \<open>
  C10. A call of \<open>join\<close> that returns or raises leaves all error queues as they were, or it
  has designated a failing worker \<open>k\<close> (one that has exited, with a status other than 0)
  whose queue was not empty, raises the \<^verbatim>\<open>WorkerRaisedException\<close> for \<open>k\<close>, and has
  taken the first message from the queue of \<open>k\<close> and changed no other queue.
\<close>

theorem join_reads_one_queue:
  assumes "join e ctx w = Some (r, ctx')"
  shows "error_queues ctx' = error_queues ctx \<or>
     (\<exists>ready k ctx1 p m.
        w = Some ready \<and> join_scan ready ctx = Some (Inr (Some k), ctx1) \<and>
        r = Inl (WorkerRaisedException k p m) \<and>
        k < length (error_queues ctx) \<and> error_queues ctx ! k \<noteq> [] \<and>
        \<not> is_alive (processes ctx1 ! k) \<and> exitcode (processes ctx1 ! k) \<noteq> Some 0 \<and>
        error_queues ctx' = (error_queues ctx)[k := tl (error_queues ctx ! k)])"
  using assms
proof (cases rule: join_cases)
  case Joined
  then show ?thesis by simp
next
  case (ScanError ready x)
  from join_scan_frame[OF ScanError(3)] show ?thesis by simp
next
  case (NoFailure ready)
  from join_scan_frame[OF NoFailure(3)] show ?thesis by simp
next
  case (Failure ready k ctx1 ps x)
  have q: "error_queues (ctx1\<lparr>processes := ps\<rparr>) = error_queues ctx"
    using join_scan_frame[OF Failure(3)] by simp
  from join_scan_designated[OF Failure(3)]
  have d: "\<not> is_alive (processes ctx1 ! k)" "exitcode (processes ctx1 ! k) \<noteq> Some 0"
    by (simp_all add: is_alive_def)
  from report_frame(3)[OF Failure(5)] show ?thesis
  proof
    assume "error_queues ctx' = error_queues (ctx1\<lparr>processes := ps\<rparr>)"
    with q show ?thesis by simp
  next
    assume a: "k < length (error_queues (ctx1\<lparr>processes := ps\<rparr>)) \<and>
      error_queues (ctx1\<lparr>processes := ps\<rparr>) ! k \<noteq> [] \<and>
      error_queues ctx' = (error_queues (ctx1\<lparr>processes := ps\<rparr>))
         [k := tl (error_queues (ctx1\<lparr>processes := ps\<rparr>) ! k)] \<and>
      (\<exists>p m. x = WorkerRaisedException k p m)"
    then obtain p m where x: "x = WorkerRaisedException k p m" by blast
    from a q have "k < length (error_queues ctx)" "error_queues ctx ! k \<noteq> []"
      "error_queues ctx' = (error_queues ctx)[k := tl (error_queues ctx ! k)]" by simp_all
    with Failure(2,3,6) x d show ?thesis by blast
  qed
qed

theorem join_reads_one_queue_witness:
  "join env0 (ctx_ex [''ValueError: boom''] 1) (Some [10, 11]) =
     Some (Inl (WorkerRaisedException 1 101
             (terminated_header 1 @ ''ValueError: boom'' @ captured_header @ ''disk full'')),
           ctx_ex_final [''ValueError: boom''] 1) \<and>
   error_queues (ctx_ex_final [''ValueError: boom''] 1) =
     (error_queues (ctx_ex [''ValueError: boom''] 1))
       [1 := tl (error_queues (ctx_ex [''ValueError: boom''] 1) ! 1)]"
proof -
  from join_reads_one_queue[OF ex_join_raised]
  have "error_queues (ctx_ex_final [''ValueError: boom''] 1) =
          error_queues (ctx_ex [''ValueError: boom''] 1) \<or>
     (error_queues (ctx_ex_final [''ValueError: boom''] 1) =
     (error_queues (ctx_ex [''ValueError: boom''] 1))
       [1 := tl (error_queues (ctx_ex [''ValueError: boom''] 1) ! 1)])"
    by auto
  then have "error_queues (ctx_ex_final [''ValueError: boom''] 1) =
     (error_queues (ctx_ex [''ValueError: boom''] 1))
       [1 := tl (error_queues (ctx_ex [''ValueError: boom''] 1) ! 1)]"
    by (simp add: ctx_ex_final_def ctx_ex_def)
  with ex_join_raised show ?thesis by simp
qed

end
